theory Spec2Isabelle
  imports Complex_Main
begin

section \<open>Error classes (src/utils/errors.ts)\<close>

text \<open>
  The three error classes that \<open>distributeGas\<close> throws. \<open>BlockchainError\<close> carries a
  message and an optional transaction hash, \<open>InsufficientBalanceError\<close> extends it with
  no hash, \<open>SufficientBalanceError\<close> extends \<open>AppError\<close> directly and carries the
  formatted balance and the threshold. Each constructor fixes the HTTP status code
  passed to \<open>AppError\<close>.
\<close>

datatype app_error =
    BlockchainError string "string option"
  | InsufficientBalanceError string
  | SufficientBalanceError string "string option" "string option"

fun statusCode :: "app_error \<Rightarrow> nat" where
  "statusCode (BlockchainError message txHash) = 500"
| "statusCode (InsufficientBalanceError message) = 500"
| "statusCode (SufficientBalanceError message currentBalance threshold) = 400"

text \<open>The default message of \<open>new InsufficientBalanceError()\<close>.\<close>

definition InsufficientBalanceError_default :: app_error where
  "InsufficientBalanceError_default =
     InsufficientBalanceError ''Insufficient balance for gas distribution''"

text \<open>
  What the ethers library or the network can throw: an \<open>Error\<close> with its message, or a
  value that is not an instance of \<open>Error\<close>. Inside the \<open>try\<close> block a thrown value is
  either one of the service's own errors or one of these.
\<close>

datatype js_thrown = JsError string | NonError

datatype thrown = App app_error | Lib js_thrown

section \<open>Strings\<close>

text \<open>\<open>String.prototype.toLowerCase\<close> on ASCII text, which is what an address holds.\<close>

definition toLowerCase_char :: "char \<Rightarrow> char" where
  "toLowerCase_char c =
     (case map_of (zip ''ABCDEFGHIJKLMNOPQRSTUVWXYZ'' ''abcdefghijklmnopqrstuvwxyz'') c of
        None \<Rightarrow> c
      | Some d \<Rightarrow> d)"

definition toLowerCase :: "string \<Rightarrow> string" where
  "toLowerCase s = map toLowerCase_char s"

fun startsWith :: "string \<Rightarrow> string \<Rightarrow> bool" where
  "startsWith s [] = True"
| "startsWith [] (c # cs) = False"
| "startsWith (x # xs) (c # cs) = (x = c \<and> startsWith xs cs)"

text \<open>\<open>String.prototype.includes\<close>: the second string occurs somewhere in the first.\<close>

fun str_includes :: "string \<Rightarrow> string \<Rightarrow> bool" where
  "str_includes [] sub = (sub = [])"
| "str_includes (x # xs) sub = (startsWith (x # xs) sub \<or> str_includes xs sub)"

section \<open>Configuration, library and ledger\<close>

text \<open>The two fields of \<open>config\<close> that \<open>distributeGas\<close> reads; both are strings.\<close>

record config =
  GAS_AMOUNT :: string
  MINIMUM_BALANCE_THRESHOLD :: string

text \<open>
  The pure functions of the ethers library the service calls. The library is not part of
  the repository, so it is a parameter of the model: \<open>parseEther\<close> returns the amount in
  wei or throws, \<open>isAddress\<close> and \<open>formatEther\<close> do not throw.
\<close>

record ethers =
  isAddress :: "string \<Rightarrow> bool"
  parseEther :: "string \<Rightarrow> js_thrown + int"
  formatEther :: "int \<Rightarrow> string"

text \<open>\<open>ethers.parseUnits('1', 'gwei')\<close>: one gwei is \<open>10^9\<close> wei.\<close>

definition one_gwei :: int where
  "one_gwei = 1000000000"

text \<open>The object passed to \<open>wallet.sendTransaction\<close>.\<close>

record tx_request =
  tx_to :: string
  tx_value :: int
  tx_gasLimit :: int
  tx_gasPrice :: int

text \<open>The fields of a transaction receipt the service reads; \<open>to\<close> and \<open>status\<close> may be null.\<close>

record receipt =
  receipt_hash :: string
  receipt_from :: string
  receipt_to :: "string option"
  receipt_gasUsed :: int
  receipt_status :: "int option"
  receipt_blockNumber :: int

text \<open>
  A submitted transaction: its hash, and what \<open>tx.wait()\<close> resolves to (a receipt or
  null) or rejects with.
\<close>

record tx_response =
  tx_hash :: string
  wait :: "js_thrown + receipt option"

text \<open>
  The wallet and the network as one call of \<open>distributeGas\<close> meets them. Every network
  call site of the function runs at most once, so the answer of each is one field:
  \<open>recipient_balance\<close> is \<open>provider.getBalance(address)\<close> inside
  \<open>getRecipientBalance\<close>, \<open>wallet_balance\<close> is \<open>provider.getBalance(wallet.address)\<close>
  inside \<open>getBalance\<close>, \<open>fee_data\<close> is the \<open>gasPrice\<close> field of
  \<open>provider.getFeeData()\<close>, \<open>send_transaction\<close> is \<open>wallet.sendTransaction\<close>, and
  \<open>clock\<close> is \<open>new Date()\<close>. \<open>Inl\<close> is a rejected promise.
\<close>

record world =
  wallet_address :: string
  recipient_balance :: "string \<Rightarrow> js_thrown + int"
  wallet_balance :: "js_thrown + int"
  fee_data :: "js_thrown + int option"
  send_transaction :: "tx_request \<Rightarrow> js_thrown + tx_response"
  clock :: nat

text \<open>The network calls, in the order they are issued.\<close>

datatype event =
    GetBalance string
  | GetFeeData
  | SendTransaction tx_request
  | Wait string

section \<open>Computations that log network calls and may throw\<close>

type_synonym 'a io = "event list \<times> (thrown + 'a)"

definition io_return :: "'a \<Rightarrow> 'a io" where
  "io_return x = ([], Inr x)"

definition io_throw :: "thrown \<Rightarrow> 'a io" where
  "io_throw e = ([], Inl e)"

definition io_bind :: "'a io \<Rightarrow> ('a \<Rightarrow> 'b io) \<Rightarrow> 'b io" where
  "io_bind m f =
     (case m of
        (tr, Inl e) \<Rightarrow> (tr, Inl e)
      | (tr, Inr x) \<Rightarrow> (case f x of (tr', r) \<Rightarrow> (tr @ tr', r)))"

text \<open>A library call: no network traffic, the library's exception is thrown on.\<close>

definition io_lib :: "js_thrown + 'a \<Rightarrow> 'a io" where
  "io_lib r = (case r of Inl e \<Rightarrow> ([], Inl (Lib e)) | Inr x \<Rightarrow> ([], Inr x))"

text \<open>An awaited network call: the call is logged, a rejection is thrown on.\<close>

definition io_await :: "event \<Rightarrow> js_thrown + 'a \<Rightarrow> 'a io" where
  "io_await ev r = (case r of Inl e \<Rightarrow> ([ev], Inl (Lib e)) | Inr x \<Rightarrow> ([ev], Inr x))"

definition io_catch :: "'a io \<Rightarrow> (thrown \<Rightarrow> 'a io) \<Rightarrow> 'a io" where
  "io_catch m h =
     (case m of
        (tr, Inl e) \<Rightarrow> (case h e of (tr', r) \<Rightarrow> (tr @ tr', r))
      | (tr, Inr x) \<Rightarrow> (tr, Inr x))"

section \<open>BlockchainService (src/services/blockchain.service.ts)\<close>

text \<open>\<open>getBalance\<close>: any failure of the query becomes a \<open>BlockchainError\<close>.\<close>

definition getBalance :: "world \<Rightarrow> int io" where
  "getBalance W =
     io_catch (io_await (GetBalance (wallet_address W)) (wallet_balance W))
       (\<lambda>error. io_throw (App (BlockchainError ''Failed to retrieve wallet balance'' None)))"

definition getRecipientBalance :: "world \<Rightarrow> string \<Rightarrow> int io" where
  "getRecipientBalance W address =
     io_catch (io_await (GetBalance address) (recipient_balance W address))
       (\<lambda>error. io_throw (App (BlockchainError ''Failed to retrieve recipient balance'' None)))"

text \<open>\<open>amount || config.GAS_AMOUNT\<close>: an absent or empty amount is falsy.\<close>

definition gasAmount :: "config \<Rightarrow> string option \<Rightarrow> string" where
  "gasAmount C amount =
     (case amount of
        None \<Rightarrow> GAS_AMOUNT C
      | Some a \<Rightarrow> if a = [] then GAS_AMOUNT C else a)"

text \<open>\<open>config.MINIMUM_BALANCE_THRESHOLD || '0.005'\<close>.\<close>

definition minimumBalanceThreshold :: "config \<Rightarrow> string" where
  "minimumBalanceThreshold C =
     (if MINIMUM_BALANCE_THRESHOLD C = [] then ''0.005'' else MINIMUM_BALANCE_THRESHOLD C)"

text \<open>
  \<open>feeData.gasPrice || ethers.parseUnits('1', 'gwei')\<close>: a null price is falsy, and so is
  the bigint \<open>0n\<close>.
\<close>

definition gasPrice_of :: "int option \<Rightarrow> int" where
  "gasPrice_of feeData =
     (case feeData of
        None \<Rightarrow> one_gwei
      | Some p \<Rightarrow> if p = 0 then one_gwei else p)"

text \<open>
  \<open>TransactionInfo\<close> (src/types/index.ts). \<open>value\<close> and \<open>gasUsed\<close> are the decimal
  renderings of bigints in the source and are kept as integers here.
\<close>

record TransactionInfo =
  info_hash :: string
  info_from :: string
  info_to :: string
  info_value :: int
  info_gasUsed :: int
  info_status :: bool
  info_blockNumber :: int
  info_timestamp :: nat

definition SufficientBalance_message :: "string \<Rightarrow> string \<Rightarrow> string" where
  "SufficientBalance_message currentBalanceFormatted threshold =
     ''You have enough sFUEL. Current balance: '' @ currentBalanceFormatted
       @ '' FAIR (minimum required: '' @ threshold @ '' FAIR)''"

definition InsufficientBalance_message :: "string \<Rightarrow> string \<Rightarrow> string" where
  "InsufficientBalance_message required available =
     ''Insufficient balance. Required: '' @ required @ '' FAIR, Available: ''
       @ available @ '' FAIR''"

text \<open>
  The end of the \<open>try\<close> block, from \<open>tx.wait()\<close>: a null receipt is an error, a receipt
  whose status is not \<open>1\<close> is an error that carries the receipt's hash.
\<close>

definition confirm :: "world \<Rightarrow> string \<Rightarrow> int \<Rightarrow> tx_response \<Rightarrow> TransactionInfo io" where
  "confirm W recipientAddress valueInWei tx =
     io_bind (io_await (Wait (tx_hash tx)) (wait tx)) (\<lambda>receipt.
       case receipt of
         None \<Rightarrow> io_throw (App (BlockchainError ''Transaction failed - no receipt'' None))
       | Some r \<Rightarrow>
           (let transactionInfo = \<lparr>
                  info_hash = receipt_hash r,
                  info_from = receipt_from r,
                  info_to = (case receipt_to r of
                               None \<Rightarrow> recipientAddress
                             | Some t \<Rightarrow> if t = [] then recipientAddress else t),
                  info_value = valueInWei,
                  info_gasUsed = receipt_gasUsed r,
                  info_status = (receipt_status r = Some 1),
                  info_blockNumber = receipt_blockNumber r,
                  info_timestamp = clock W \<rparr>
            in if \<not> info_status transactionInfo
               then io_throw (App (BlockchainError ''Transaction failed'' (Some (receipt_hash r))))
               else io_return transactionInfo))"

text \<open>The \<open>try\<close> block of \<open>distributeGas\<close>, statement by statement.\<close>

definition distributeGas_try ::
  "ethers \<Rightarrow> config \<Rightarrow> world \<Rightarrow> string \<Rightarrow> string option \<Rightarrow> TransactionInfo io" where
  "distributeGas_try E C W recipientAddress amount =
     (if \<not> isAddress E recipientAddress
      then io_throw (App (BlockchainError ''Invalid recipient address'' None))
      else
        io_bind (io_lib (parseEther E (gasAmount C amount))) (\<lambda>valueInWei.
        io_bind (getRecipientBalance W recipientAddress) (\<lambda>recipientBalance.
        io_bind (io_lib (parseEther E (minimumBalanceThreshold C))) (\<lambda>minimumBalance.
          if recipientBalance \<ge> minimumBalance
          then io_throw (App (SufficientBalanceError
                 (SufficientBalance_message (formatEther E recipientBalance)
                    (minimumBalanceThreshold C))
                 (Some (formatEther E recipientBalance))
                 (Some (minimumBalanceThreshold C))))
          else
            io_bind (getBalance W) (\<lambda>balance.
              if balance < valueInWei
              then io_throw (App (InsufficientBalanceError
                     (InsufficientBalance_message (gasAmount C amount)
                        (formatEther E balance))))
              else if toLowerCase recipientAddress = toLowerCase (wallet_address W)
              then io_throw (App (BlockchainError
                     ''Cannot distribute gas to the same wallet'' None))
              else
                io_bind (io_await GetFeeData (fee_data W)) (\<lambda>feeData.
                  (let transaction = \<lparr>
                         tx_to = recipientAddress,
                         tx_value = valueInWei,
                         tx_gasLimit = 21000,
                         tx_gasPrice = gasPrice_of feeData \<rparr>
                   in io_bind
                        (io_await (SendTransaction transaction)
                           (send_transaction W transaction))
                        (confirm W recipientAddress valueInWei))))))))"

text \<open>
  The \<open>catch\<close> block: the service's own errors are thrown on unchanged; an \<open>Error\<close> whose
  message mentions insufficient funds or the network is renamed; anything else is an
  unexpected error.
\<close>

fun distributeGas_catch :: "thrown \<Rightarrow> app_error" where
  "distributeGas_catch (App e) = e"
| "distributeGas_catch (Lib (JsError message)) =
     (if str_includes message ''insufficient funds'' then InsufficientBalanceError_default
      else if str_includes message ''network''
      then BlockchainError ''Network error - please try again later'' None
      else BlockchainError ''Transaction failed - unexpected error'' None)"
| "distributeGas_catch (Lib NonError) =
     BlockchainError ''Transaction failed - unexpected error'' None"

definition distributeGas ::
  "ethers \<Rightarrow> config \<Rightarrow> world \<Rightarrow> string \<Rightarrow> string option
     \<Rightarrow> event list \<times> (app_error + TransactionInfo)" where
  "distributeGas E C W recipientAddress amount =
     (case distributeGas_try E C W recipientAddress amount of
        (tr, Inl e) \<Rightarrow> (tr, Inl (distributeGas_catch e))
      | (tr, Inr transactionInfo) \<Rightarrow> (tr, Inr transactionInfo))"

text \<open>\<open>getGasPrice\<close>: the same fallback, with its own error for a failed query.\<close>

definition getGasPrice :: "world \<Rightarrow> int io" where
  "getGasPrice W =
     io_catch
       (io_bind (io_await GetFeeData (fee_data W)) (\<lambda>feeData. io_return (gasPrice_of feeData)))
       (\<lambda>error. io_throw (App (BlockchainError ''Failed to retrieve gas price'' None)))"

section \<open>Request validation (src/middleware/validation.middleware.ts)\<close>

text \<open>
  The value of \<open>parseFloat\<close>: a JavaScript number is \<open>NaN\<close>, an infinity or a finite
  value, and a comparison with \<open>NaN\<close> is false. \<open>parseFloat\<close> itself is a parameter.
\<close>

datatype js_number = NaN | Infinity | NegInfinity | Finite real

fun js_gt :: "js_number \<Rightarrow> real \<Rightarrow> bool" where
  "js_gt (Finite x) y = (x > y)"
| "js_gt Infinity y = True"
| "js_gt NegInfinity y = False"
| "js_gt NaN y = False"

fun js_le :: "js_number \<Rightarrow> real \<Rightarrow> bool" where
  "js_le (Finite x) y = (x \<le> y)"
| "js_le Infinity y = False"
| "js_le NegInfinity y = True"
| "js_le NaN y = False"

text \<open>
  The refinement on \<open>amount\<close> in \<open>gasDistributionSchema\<close>: an absent or empty amount
  passes, any other must parse to a number in \<open>(0, 10]\<close>.
\<close>

definition amount_refine :: "(string \<Rightarrow> js_number) \<Rightarrow> string option \<Rightarrow> bool" where
  "amount_refine parseFloat val =
     (case val of
        None \<Rightarrow> True
      | Some v \<Rightarrow>
          if v = [] then True
          else (let parsed = parseFloat v in js_gt parsed 0 \<and> js_le parsed 10))"

section \<open>A concrete library and ledger for worked examples\<close>

text \<open>
  The examples below run the service against a small stand-in for ethers and a ledger
  with fixed answers. \<open>demo_isAddress\<close> is the check of the test suite's mock
  of ethers: length 42 and prefix \<open>0x\<close>. \<open>demo_parseEther\<close> reads
  an unsigned decimal with at most 18 fractional digits and throws on anything else.
  \<open>demo_formatEther\<close> knows the balances the examples use.
\<close>

definition demo_isAddress :: "string \<Rightarrow> bool" where
  "demo_isAddress address = (length address = 42 \<and> startsWith address ''0x'')"

definition digit_value :: "char \<Rightarrow> int option" where
  "digit_value c = map_of (zip ''0123456789'' [0, 1, 2, 3, 4, 5, 6, 7, 8, 9]) c"

fun digits_value :: "string \<Rightarrow> int \<Rightarrow> int option" where
  "digits_value [] acc = Some acc"
| "digits_value (c # cs) acc =
     (case digit_value c of None \<Rightarrow> None | Some d \<Rightarrow> digits_value cs (10 * acc + d))"

definition demo_parseEther :: "string \<Rightarrow> js_thrown + int" where
  "demo_parseEther s =
     (let whole = takeWhile (\<lambda>c. c \<noteq> CHR ''.'') s;
          frac = drop 1 (dropWhile (\<lambda>c. c \<noteq> CHR ''.'') s)
      in if (whole = [] \<and> frac = []) \<or> length frac > 18
         then Inl (JsError ''invalid FixedNumber string value'')
         else case digits_value (whole @ frac) 0 of
                None \<Rightarrow> Inl (JsError ''invalid FixedNumber string value'')
              | Some n \<Rightarrow> Inr (n * 10 ^ (18 - length frac)))"

definition demo_formatEther :: "int \<Rightarrow> string" where
  "demo_formatEther wei =
     (if wei = 1000000000000000000 then ''1.0''
      else if wei = 5000000000000000 then ''0.005''
      else if wei = 1000000000000000 then ''0.001''
      else ''0.0'')"

definition demo_parseFloat :: "string \<Rightarrow> js_number" where
  "demo_parseFloat s =
     (case demo_parseEther s of
        Inl e \<Rightarrow> NaN
      | Inr wei \<Rightarrow> Finite (real_of_int wei / 10 ^ 18))"

definition demo_ethers :: ethers where
  "demo_ethers = \<lparr> isAddress = demo_isAddress, parseEther = demo_parseEther,
     formatEther = demo_formatEther \<rparr>"

text \<open>The configuration of the test suite: 0.1 per request, threshold 0.005.\<close>

definition demo_config :: config where
  "demo_config = \<lparr> GAS_AMOUNT = ''0.1'', MINIMUM_BALANCE_THRESHOLD = ''0.005'' \<rparr>"

definition demo_recipient :: string where
  "demo_recipient = ''0x742d35Cc6506C5b5b60c96b1c32B6C1e83aA0aEb''"

definition demo_wallet :: string where
  "demo_wallet = ''0xabcdefabcdefabcdefabcdefabcdefabcdefabcd''"

definition demo_hash :: string where
  "demo_hash = ''0x1234567890abcdef1234567890abcdef1234567890abcdef1234567890abcdef''"

definition demo_receipt :: "int option \<Rightarrow> receipt" where
  "demo_receipt status = \<lparr>
     receipt_hash = demo_hash,
     receipt_from = demo_wallet,
     receipt_to = Some demo_recipient,
     receipt_gasUsed = 21000,
     receipt_status = status,
     receipt_blockNumber = 12345 \<rparr>"

text \<open>
  A ledger that answers the recipient's balance, the wallet's balance, the gas price and
  the receipt as given, and accepts every transaction.
\<close>

definition demo_world :: "int \<Rightarrow> int \<Rightarrow> int option \<Rightarrow> receipt option \<Rightarrow> world" where
  "demo_world recipientBalance walletBalance gasPrice rcpt = \<lparr>
     wallet_address = demo_wallet,
     recipient_balance = (\<lambda>address. Inr recipientBalance),
     wallet_balance = Inr walletBalance,
     fee_data = Inr gasPrice,
     send_transaction = (\<lambda>transaction. Inr \<lparr> tx_hash = demo_hash, wait = Inr rcpt \<rparr>),
     clock = 0 \<rparr>"

text \<open>The balances of the test suite: 0.001 and 1 in wei.\<close>

definition LOW :: int where
  "LOW = 1000000000000000"

definition HIGH :: int where
  "HIGH = 1000000000000000000"

text \<open>The request the service submits for \<open>demo_recipient\<close>, and the result of a success.\<close>

definition demo_transaction :: "int \<Rightarrow> int \<Rightarrow> tx_request" where
  "demo_transaction valueInWei gasPrice = \<lparr>
     tx_to = demo_recipient, tx_value = valueInWei, tx_gasLimit = 21000,
     tx_gasPrice = gasPrice \<rparr>"

definition demo_info :: "int \<Rightarrow> TransactionInfo" where
  "demo_info valueInWei = \<lparr>
     info_hash = demo_hash, info_from = demo_wallet, info_to = demo_recipient,
     info_value = valueInWei, info_gasUsed = 21000, info_status = True,
     info_blockNumber = 12345, info_timestamp = 0 \<rparr>"

text \<open>
  A recipient without letters, so that no checksum applies to it, and a library whose
  conversion error quotes the rejected string in its message, as the message of ethers
  does.
\<close>

definition demo_recipient_plain :: string where
  "demo_recipient_plain = ''0x1234567890123456789012345678901234567890''"

definition demo_parseEther_quoting :: "string \<Rightarrow> js_thrown + int" where
  "demo_parseEther_quoting s =
     (case demo_parseEther s of
        Inl e \<Rightarrow> Inl (JsError (''invalid FixedNumber string value (value='' @ s @ '')''))
      | Inr wei \<Rightarrow> Inr wei)"

definition demo_ethers_quoting :: ethers where
  "demo_ethers_quoting = \<lparr> isAddress = demo_isAddress, parseEther = demo_parseEther_quoting,
     formatEther = demo_formatEther \<rparr>"

section \<open>The run of \<open>distributeGas\<close>, stage by stage\<close>

lemmas io_defs = io_bind_def io_catch_def io_await_def io_lib_def io_throw_def io_return_def

text \<open>\<open>confirm\<close> issues one call and decides on the receipt alone.\<close>

lemma confirm_unfolded:
  "confirm W recipientAddress valueInWei tx =
     ([Wait (tx_hash tx)],
      (case wait tx of
         Inl e \<Rightarrow> Inl (Lib e)
       | Inr None \<Rightarrow> Inl (App (BlockchainError ''Transaction failed - no receipt'' None))
       | Inr (Some r) \<Rightarrow>
           if receipt_status r = Some 1
           then Inr \<lparr>
                  info_hash = receipt_hash r,
                  info_from = receipt_from r,
                  info_to = (case receipt_to r of
                               None \<Rightarrow> recipientAddress
                             | Some t \<Rightarrow> if t = [] then recipientAddress else t),
                  info_value = valueInWei,
                  info_gasUsed = receipt_gasUsed r,
                  info_status = True,
                  info_blockNumber = receipt_blockNumber r,
                  info_timestamp = clock W \<rparr>
           else Inl (App (BlockchainError ''Transaction failed'' (Some (receipt_hash r))))))"
  by (simp add: confirm_def io_defs Let_def split: sum.split option.split)

text \<open>
  Every exit of \<open>distributeGas\<close> with the network calls issued before it and the error
  the caller sees.
\<close>

lemma distributeGas_unfolded:
  "distributeGas E C W recipientAddress amount =
     (if \<not> isAddress E recipientAddress
      then ([], Inl (BlockchainError ''Invalid recipient address'' None))
      else case parseEther E (gasAmount C amount) of
        Inl e \<Rightarrow> ([], Inl (distributeGas_catch (Lib e)))
      | Inr valueInWei \<Rightarrow>
      (case recipient_balance W recipientAddress of
        Inl e \<Rightarrow> ([GetBalance recipientAddress],
                  Inl (BlockchainError ''Failed to retrieve recipient balance'' None))
      | Inr recipientBalance \<Rightarrow>
      (case parseEther E (minimumBalanceThreshold C) of
        Inl e \<Rightarrow> ([GetBalance recipientAddress], Inl (distributeGas_catch (Lib e)))
      | Inr minimumBalance \<Rightarrow>
      if minimumBalance \<le> recipientBalance
      then ([GetBalance recipientAddress],
            Inl (SufficientBalanceError
                   (SufficientBalance_message (formatEther E recipientBalance)
                      (minimumBalanceThreshold C))
                   (Some (formatEther E recipientBalance))
                   (Some (minimumBalanceThreshold C))))
      else case wallet_balance W of
        Inl e \<Rightarrow> ([GetBalance recipientAddress, GetBalance (wallet_address W)],
                  Inl (BlockchainError ''Failed to retrieve wallet balance'' None))
      | Inr balance \<Rightarrow>
      if balance < valueInWei
      then ([GetBalance recipientAddress, GetBalance (wallet_address W)],
            Inl (InsufficientBalanceError
                   (InsufficientBalance_message (gasAmount C amount) (formatEther E balance))))
      else if toLowerCase recipientAddress = toLowerCase (wallet_address W)
      then ([GetBalance recipientAddress, GetBalance (wallet_address W)],
            Inl (BlockchainError ''Cannot distribute gas to the same wallet'' None))
      else case fee_data W of
        Inl e \<Rightarrow> ([GetBalance recipientAddress, GetBalance (wallet_address W), GetFeeData],
                  Inl (distributeGas_catch (Lib e)))
      | Inr feeData \<Rightarrow>
      (case send_transaction W
              \<lparr> tx_to = recipientAddress, tx_value = valueInWei, tx_gasLimit = 21000,
                tx_gasPrice = gasPrice_of feeData \<rparr> of
        Inl e \<Rightarrow> ([GetBalance recipientAddress, GetBalance (wallet_address W), GetFeeData,
                   SendTransaction \<lparr> tx_to = recipientAddress, tx_value = valueInWei,
                     tx_gasLimit = 21000, tx_gasPrice = gasPrice_of feeData \<rparr>],
                  Inl (distributeGas_catch (Lib e)))
      | Inr tx \<Rightarrow>
          ([GetBalance recipientAddress, GetBalance (wallet_address W), GetFeeData,
            SendTransaction \<lparr> tx_to = recipientAddress, tx_value = valueInWei,
              tx_gasLimit = 21000, tx_gasPrice = gasPrice_of feeData \<rparr>,
            Wait (tx_hash tx)],
           (case snd (confirm W recipientAddress valueInWei tx) of
              Inl e \<Rightarrow> Inl (distributeGas_catch e)
            | Inr transactionInfo \<Rightarrow> Inr transactionInfo))))))"
  by (simp add: distributeGas_def distributeGas_try_def confirm_unfolded getRecipientBalance_def
        getBalance_def io_defs Let_def
      split: sum.split option.split)

lemma statusCode_catch_Lib: "statusCode (distributeGas_catch (Lib e)) = 500"
  by (cases e) (simp_all add: InsufficientBalanceError_default_def)

text \<open>What a run that submitted a transaction returns, and what a success implies.\<close>

lemma submitted_run:
  assumes "distributeGas E C W recipientAddress amount = (tr, res)"
    and "SendTransaction transaction \<in> set tr"
  shows "res = (case send_transaction W transaction of
                  Inl e \<Rightarrow> Inl (distributeGas_catch (Lib e))
                | Inr tx \<Rightarrow>
                    (case snd (confirm W recipientAddress (tx_value transaction) tx) of
                       Inl e \<Rightarrow> Inl (distributeGas_catch e)
                     | Inr transactionInfo \<Rightarrow> Inr transactionInfo))"
  using assms
  by (auto simp: distributeGas_unfolded split: if_splits sum.splits)

lemma success_needs_receipt:
  assumes "distributeGas E C W recipientAddress amount = (tr, Inr transactionInfo)"
  shows "\<exists>transaction tx r. SendTransaction transaction \<in> set tr
           \<and> send_transaction W transaction = Inr tx
           \<and> wait tx = Inr (Some r) \<and> receipt_status r = Some 1"
  using assms
  by (auto simp: distributeGas_unfolded confirm_unfolded
      split: if_splits sum.splits option.splits)

lemma fee_queried_run:
  assumes "distributeGas E C W recipientAddress amount = (tr, res)"
    and "GetFeeData \<in> set tr"
    and "fee_data W = Inr feeData"
  shows "\<exists>transaction. SendTransaction transaction \<in> set tr
           \<and> tx_gasPrice transaction = gasPrice_of feeData"
  using assms
  by (auto simp: distributeGas_unfolded split: if_splits sum.splits)

section \<open>Worked examples\<close>

lemmas demo_defs = demo_ethers_def demo_config_def demo_world_def demo_receipt_def
  demo_isAddress_def demo_parseEther_def digit_value_def demo_formatEther_def
  demo_recipient_def demo_wallet_def demo_hash_def LOW_def HIGH_def demo_transaction_def
  demo_info_def

lemmas eval_defs = distributeGas_unfolded confirm_unfolded gasAmount_def
  minimumBalanceThreshold_def gasPrice_of_def one_gwei_def toLowerCase_def toLowerCase_char_def
  demo_defs

text \<open>Scenario A: an unfunded recipient, a funded wallet, no amount given.\<close>

lemma demo_run_success:
  "distributeGas demo_ethers demo_config
     (demo_world LOW HIGH (Some 1000000000) (Some (demo_receipt (Some 1)))) demo_recipient None =
   ([GetBalance demo_recipient, GetBalance demo_wallet, GetFeeData,
     SendTransaction (demo_transaction 100000000000000000 1000000000), Wait demo_hash],
    Inr (demo_info 100000000000000000))"
  by (simp add: eval_defs)

text \<open>Scenario D: the confirmation yields no receipt.\<close>

lemma demo_run_no_receipt:
  "distributeGas demo_ethers demo_config
     (demo_world LOW HIGH (Some 1000000000) None) demo_recipient None =
   ([GetBalance demo_recipient, GetBalance demo_wallet, GetFeeData,
     SendTransaction (demo_transaction 100000000000000000 1000000000), Wait demo_hash],
    Inl (BlockchainError ''Transaction failed - no receipt'' None))"
  by (simp add: eval_defs)

text \<open>Scenario C: the receipt reports status 0.\<close>

lemma demo_run_failed:
  "distributeGas demo_ethers demo_config
     (demo_world LOW HIGH (Some 1000000000) (Some (demo_receipt (Some 0)))) demo_recipient None =
   ([GetBalance demo_recipient, GetBalance demo_wallet, GetFeeData,
     SendTransaction (demo_transaction 100000000000000000 1000000000), Wait demo_hash],
    Inl (BlockchainError ''Transaction failed'' (Some demo_hash)))"
  by (simp add: eval_defs)

text \<open>Scenario B: the recipient's balance equals the threshold.\<close>

lemma demo_run_at_threshold:
  "distributeGas demo_ethers demo_config
     (demo_world 5000000000000000 HIGH (Some 1000000000) (Some (demo_receipt (Some 1))))
     demo_recipient None =
   ([GetBalance demo_recipient],
    Inl (SufficientBalanceError
      ''You have enough sFUEL. Current balance: 0.005 FAIR (minimum required: 0.005 FAIR)''
      (Some ''0.005'') (Some ''0.005'')))"
  by (simp add: eval_defs SufficientBalance_message_def)

lemma demo_run_funded:
  "distributeGas demo_ethers demo_config
     (demo_world HIGH HIGH (Some 1000000000) (Some (demo_receipt (Some 1))))
     demo_recipient None =
   ([GetBalance demo_recipient],
    Inl (SufficientBalanceError
      ''You have enough sFUEL. Current balance: 1.0 FAIR (minimum required: 0.005 FAIR)''
      (Some ''1.0'') (Some ''0.005'')))"
  by (simp add: eval_defs SufficientBalance_message_def)


text \<open>The wallet's own address as recipient, with a balance of 0.002 and 0.001 requested.\<close>

lemma demo_run_self:
  "distributeGas demo_ethers demo_config
     (demo_world 2000000000000000 2000000000000000 (Some 1000000000) None)
     demo_wallet (Some ''0.001'') =
   ([GetBalance demo_wallet, GetBalance demo_wallet],
    Inl (BlockchainError ''Cannot distribute gas to the same wallet'' None))"
  by (simp add: eval_defs)

lemma demo_run_self_upper:
  "distributeGas demo_ethers demo_config
     (demo_world 2000000000000000 2000000000000000 (Some 1000000000) None)
     ''0xABCDEFABCDEFABCDEFABCDEFABCDEFABCDEFABCD'' (Some ''0.001'') =
   ([GetBalance ''0xABCDEFABCDEFABCDEFABCDEFABCDEFABCDEFABCD'', GetBalance demo_wallet],
    Inl (BlockchainError ''Cannot distribute gas to the same wallet'' None))"
  by (simp add: eval_defs)

lemma demo_run_invalid_address:
  "distributeGas demo_ethers demo_config
     (demo_world LOW HIGH (Some 1000000000) (Some (demo_receipt (Some 1)))) ''0xinvalid'' None =
   ([], Inl (BlockchainError ''Invalid recipient address'' None))"
  by (simp add: eval_defs)

lemma demo_run_bad_amount_plain:
  "distributeGas demo_ethers demo_config
     (demo_world LOW HIGH (Some 1000000000) (Some (demo_receipt (Some 1))))
     demo_recipient_plain (Some ''abc'') =
   ([], Inl (BlockchainError ''Transaction failed - unexpected error'' None))"
  by (simp add: eval_defs demo_recipient_plain_def)

lemma demo_plain_values:
  "isAddress demo_ethers demo_recipient_plain"
  "isAddress demo_ethers_quoting demo_recipient_plain"
  by (simp_all add: demo_ethers_def demo_ethers_quoting_def demo_isAddress_def
        demo_recipient_plain_def)

lemma demo_quoting_values:
  "parseEther demo_ethers_quoting ''insufficient funds'' =
     Inl (JsError ''invalid FixedNumber string value (value=insufficient funds)'')"
  "parseEther demo_ethers_quoting ''network'' =
     Inl (JsError ''invalid FixedNumber string value (value=network)'')"
  "parseEther demo_ethers_quoting ''abc'' =
     Inl (JsError ''invalid FixedNumber string value (value=abc)'')"
  by (simp_all add: demo_ethers_quoting_def demo_parseEther_quoting_def demo_parseEther_def
        digit_value_def)

lemma demo_quoting_includes:
  "str_includes ''invalid FixedNumber string value (value=insufficient funds)''
     ''insufficient funds''"
  "\<not> str_includes ''invalid FixedNumber string value (value=network)'' ''insufficient funds''"
  "str_includes ''invalid FixedNumber string value (value=network)'' ''network''"
  "\<not> str_includes ''invalid FixedNumber string value (value=abc)'' ''insufficient funds''"
  "\<not> str_includes ''invalid FixedNumber string value (value=abc)'' ''network''"
  by simp_all

lemma demo_run_no_price:
  "distributeGas demo_ethers demo_config
     (demo_world LOW HIGH None (Some (demo_receipt (Some 1)))) demo_recipient None =
   ([GetBalance demo_recipient, GetBalance demo_wallet, GetFeeData,
     SendTransaction (demo_transaction 100000000000000000 1000000000), Wait demo_hash],
    Inr (demo_info 100000000000000000))"
  by (simp add: eval_defs)

text \<open>An amount of 11 against a wallet that holds 1000.\<close>

lemma demo_run_eleven:
  "distributeGas demo_ethers demo_config
     (demo_world LOW 1000000000000000000000 (Some 1000000000) (Some (demo_receipt (Some 1))))
     demo_recipient (Some ''11'') =
   ([GetBalance demo_recipient, GetBalance demo_wallet, GetFeeData,
     SendTransaction (demo_transaction 11000000000000000000 1000000000), Wait demo_hash],
    Inr (demo_info 11000000000000000000))"
  by (simp add: eval_defs)

lemma demo_parseEther_values:
  "parseEther demo_ethers (gasAmount demo_config None) = Inr 100000000000000000"
  "parseEther demo_ethers (minimumBalanceThreshold demo_config) = Inr 5000000000000000"
  "parseEther demo_ethers ''0.001'' = Inr 1000000000000000"
  "parseEther demo_ethers ''11'' = Inr 11000000000000000000"
  "parseEther demo_ethers ''abc'' = Inl (JsError ''invalid FixedNumber string value'')"
  by (simp_all add: demo_defs gasAmount_def minimumBalanceThreshold_def)

lemma demo_isAddress_values:
  "isAddress demo_ethers demo_recipient"
  "isAddress demo_ethers demo_wallet"
  "isAddress demo_ethers ''0xABCDEFABCDEFABCDEFABCDEFABCDEFABCDEFABCD''"
  "\<not> isAddress demo_ethers ''0xinvalid''"
  by (simp_all add: demo_defs)

lemma demo_world_simps:
  "wallet_address (demo_world rb wb gp rc) = demo_wallet"
  "recipient_balance (demo_world rb wb gp rc) address = Inr rb"
  "wallet_balance (demo_world rb wb gp rc) = Inr wb"
  "fee_data (demo_world rb wb gp rc) = Inr gp"
  "send_transaction (demo_world rb wb gp rc) transaction =
     Inr \<lparr> tx_hash = demo_hash, wait = Inr rc \<rparr>"
  by (simp_all add: demo_world_def)

lemma demo_lower_differs: "toLowerCase demo_recipient \<noteq> toLowerCase demo_wallet"
  by (simp add: toLowerCase_def toLowerCase_char_def demo_recipient_def demo_wallet_def)

lemma demo_parseFloat_eleven: "demo_parseFloat ''11'' = Finite 11"
  by (simp add: demo_parseFloat_def demo_parseEther_def digit_value_def)

lemma demo_receipt_simps:
  "receipt_status (demo_receipt status) = status"
  "receipt_hash (demo_receipt status) = demo_hash"
  by (simp_all add: demo_receipt_def)

lemma demo_balances:
  "LOW < 5000000000000000"
  "LOW < 100000000000000000"
  "100000000000000000 \<le> HIGH"
  "5000000000000000 \<le> HIGH"
  by (simp_all add: LOW_def HIGH_def)

section \<open>The claims\<close>

text \<open>
  C1. A recipient whose observed balance is at least the threshold, equality included,
  gets a \<open>SufficientBalanceError\<close> that carries the formatted balance and the
  threshold; the recipient's balance is the only network call and nothing is submitted.
\<close>

theorem sufficient_balance_declines:
  assumes "isAddress E recipientAddress"
    and "parseEther E (gasAmount C amount) = Inr valueInWei"
    and "recipient_balance W recipientAddress = Inr recipientBalance"
    and "parseEther E (minimumBalanceThreshold C) = Inr minimumBalance"
    and "recipientBalance \<ge> minimumBalance"
  shows "distributeGas E C W recipientAddress amount =
           ([GetBalance recipientAddress],
            Inl (SufficientBalanceError
                   (SufficientBalance_message (formatEther E recipientBalance)
                      (minimumBalanceThreshold C))
                   (Some (formatEther E recipientBalance))
                   (Some (minimumBalanceThreshold C))))
         \<and> (\<forall>tx. SendTransaction tx \<notin> set (fst (distributeGas E C W recipientAddress amount)))"
  using assms by (simp add: distributeGas_unfolded)

text \<open>Scenario B of the specification: the balance equals the threshold of 0.005.\<close>

theorem sufficient_balance_declines_witness:
  "isAddress demo_ethers demo_recipient
   \<and> parseEther demo_ethers (gasAmount demo_config None) = Inr 100000000000000000
   \<and> recipient_balance
         (demo_world 5000000000000000 HIGH (Some 1000000000) (Some (demo_receipt (Some 1))))
         demo_recipient = Inr 5000000000000000
   \<and> parseEther demo_ethers (minimumBalanceThreshold demo_config) = Inr 5000000000000000
   \<and> (5000000000000000::int) \<ge> 5000000000000000
   \<and> distributeGas demo_ethers demo_config
         (demo_world 5000000000000000 HIGH (Some 1000000000) (Some (demo_receipt (Some 1))))
         demo_recipient None =
       ([GetBalance demo_recipient],
        Inl (SufficientBalanceError
          ''You have enough sFUEL. Current balance: 0.005 FAIR (minimum required: 0.005 FAIR)''
          (Some ''0.005'') (Some ''0.005'')))"
  using sufficient_balance_declines [where E = demo_ethers and C = demo_config
      and W = "demo_world 5000000000000000 HIGH (Some 1000000000) (Some (demo_receipt (Some 1)))"
      and recipientAddress = demo_recipient and amount = None
      and valueInWei = 100000000000000000 and recipientBalance = 5000000000000000
      and minimumBalance = 5000000000000000]
  by (simp add: demo_parseEther_values demo_isAddress_values demo_world_simps
        demo_run_at_threshold)

text \<open>
  C2. A transaction is submitted only if the recipient's balance was observed below the
  threshold and the wallet's balance was observed to cover the value. The recipient's
  balance is the first network call and the wallet's balance the second, made only
  after the recipient was found below the threshold: for a funded recipient the
  wallet's balance is never queried.
\<close>

theorem transfer_only_after_both_gates:
  assumes "distributeGas E C W recipientAddress amount = (tr, res)"
  shows "(SendTransaction tx \<in> set tr \<longrightarrow>
            (\<exists>valueInWei balance recipientBalance minimumBalance.
               parseEther E (gasAmount C amount) = Inr valueInWei
               \<and> recipient_balance W recipientAddress = Inr recipientBalance
               \<and> parseEther E (minimumBalanceThreshold C) = Inr minimumBalance
               \<and> recipientBalance < minimumBalance
               \<and> wallet_balance W = Inr balance
               \<and> valueInWei \<le> balance
               \<and> tx_value tx = valueInWei \<and> tx_to tx = recipientAddress))
       \<and> (2 \<le> length tr \<longrightarrow>
            take 2 tr = [GetBalance recipientAddress, GetBalance (wallet_address W)]
            \<and> (\<exists>recipientBalance minimumBalance.
                  recipient_balance W recipientAddress = Inr recipientBalance
                  \<and> parseEther E (minimumBalanceThreshold C) = Inr minimumBalance
                  \<and> recipientBalance < minimumBalance))
       \<and> (\<forall>recipientBalance minimumBalance.
             recipient_balance W recipientAddress = Inr recipientBalance
             \<and> parseEther E (minimumBalanceThreshold C) = Inr minimumBalance
             \<and> minimumBalance \<le> recipientBalance
             \<longrightarrow> tr = [] \<or> tr = [GetBalance recipientAddress])"
  using assms
  by (auto simp: distributeGas_unfolded split: if_splits sum.splits)

text \<open>A run that submits, and a run for a recipient that holds 1.\<close>

theorem transfer_only_after_both_gates_witness:
  "SendTransaction (demo_transaction 100000000000000000 1000000000)
     \<in> set (fst (distributeGas demo_ethers demo_config
           (demo_world LOW HIGH (Some 1000000000) (Some (demo_receipt (Some 1))))
           demo_recipient None))
   \<and> take 2 (fst (distributeGas demo_ethers demo_config
           (demo_world LOW HIGH (Some 1000000000) (Some (demo_receipt (Some 1))))
           demo_recipient None)) = [GetBalance demo_recipient, GetBalance demo_wallet]
   \<and> recipient_balance (demo_world LOW HIGH (Some 1000000000) (Some (demo_receipt (Some 1))))
        demo_recipient = Inr LOW
   \<and> wallet_balance (demo_world LOW HIGH (Some 1000000000) (Some (demo_receipt (Some 1))))
        = Inr HIGH
   \<and> parseEther demo_ethers (minimumBalanceThreshold demo_config) = Inr 5000000000000000
   \<and> parseEther demo_ethers (gasAmount demo_config None) = Inr 100000000000000000
   \<and> LOW < 5000000000000000 \<and> 100000000000000000 \<le> HIGH
   \<and> recipient_balance (demo_world HIGH HIGH (Some 1000000000) (Some (demo_receipt (Some 1))))
        demo_recipient = Inr HIGH
   \<and> 5000000000000000 \<le> HIGH
   \<and> fst (distributeGas demo_ethers demo_config
           (demo_world HIGH HIGH (Some 1000000000) (Some (demo_receipt (Some 1))))
           demo_recipient None) = [GetBalance demo_recipient]"
  using transfer_only_after_both_gates [where E = demo_ethers and C = demo_config
        and W = "demo_world LOW HIGH (Some 1000000000) (Some (demo_receipt (Some 1)))"
        and recipientAddress = demo_recipient and amount = None
        and tx = "demo_transaction 100000000000000000 1000000000",
      OF demo_run_success]
    transfer_only_after_both_gates [where E = demo_ethers and C = demo_config
        and W = "demo_world HIGH HIGH (Some 1000000000) (Some (demo_receipt (Some 1)))"
        and recipientAddress = demo_recipient and amount = None,
      OF demo_run_funded]
  by (simp add: demo_parseEther_values demo_world_simps demo_run_success demo_run_funded
        demo_balances)



text \<open>
  C4 (as the code has it). A valid recipient that equals the wallet's address up to
  letter case never gets a transaction submitted and never gets a success. The
  self-transfer error is the one thrown once both balance checks have let the request
  through, and it is a \<open>BlockchainError\<close>, whose status is 500.
\<close>

theorem self_transfer_rejected:
  assumes "isAddress E recipientAddress"
    and "toLowerCase recipientAddress = toLowerCase (wallet_address W)"
    and "distributeGas E C W recipientAddress amount = (tr, res)"
  shows "(\<forall>tx. SendTransaction tx \<notin> set tr)
       \<and> (\<forall>transactionInfo. res \<noteq> Inr transactionInfo)
       \<and> (\<forall>valueInWei recipientBalance minimumBalance balance.
             parseEther E (gasAmount C amount) = Inr valueInWei
             \<and> recipient_balance W recipientAddress = Inr recipientBalance
             \<and> parseEther E (minimumBalanceThreshold C) = Inr minimumBalance
             \<and> recipientBalance < minimumBalance
             \<and> wallet_balance W = Inr balance
             \<and> valueInWei \<le> balance
             \<longrightarrow> res = Inl (BlockchainError ''Cannot distribute gas to the same wallet'' None)
                 \<and> statusCode (BlockchainError ''Cannot distribute gas to the same wallet'' None)
                     = 500)"
  using assms
  by (auto simp: distributeGas_unfolded split: if_splits sum.splits)

text \<open>The wallet's address in capitals, a balance of 0.002 and a request for 0.001.\<close>

theorem self_transfer_rejected_witness:
  "isAddress demo_ethers ''0xABCDEFABCDEFABCDEFABCDEFABCDEFABCDEFABCD''
   \<and> toLowerCase ''0xABCDEFABCDEFABCDEFABCDEFABCDEFABCDEFABCD'' =
       toLowerCase (wallet_address
         (demo_world 2000000000000000 2000000000000000 (Some 1000000000) None))
   \<and> parseEther demo_ethers (gasAmount demo_config (Some ''0.001'')) = Inr 1000000000000000
   \<and> recipient_balance (demo_world 2000000000000000 2000000000000000 (Some 1000000000) None)
        ''0xABCDEFABCDEFABCDEFABCDEFABCDEFABCDEFABCD'' = Inr 2000000000000000
   \<and> parseEther demo_ethers (minimumBalanceThreshold demo_config) = Inr 5000000000000000
   \<and> (2000000000000000::int) < 5000000000000000
   \<and> wallet_balance (demo_world 2000000000000000 2000000000000000 (Some 1000000000) None)
        = Inr 2000000000000000
   \<and> (1000000000000000::int) \<le> 2000000000000000
   \<and> snd (distributeGas demo_ethers demo_config
        (demo_world 2000000000000000 2000000000000000 (Some 1000000000) None)
        ''0xABCDEFABCDEFABCDEFABCDEFABCDEFABCDEFABCD'' (Some ''0.001'')) =
      Inl (BlockchainError ''Cannot distribute gas to the same wallet'' None)
   \<and> statusCode (BlockchainError ''Cannot distribute gas to the same wallet'' None) = 500"
  using self_transfer_rejected [where E = demo_ethers and C = demo_config
      and W = "demo_world 2000000000000000 2000000000000000 (Some 1000000000) None"
      and recipientAddress = "''0xABCDEFABCDEFABCDEFABCDEFABCDEFABCDEFABCD''"
      and amount = "Some ''0.001''", OF _ _ demo_run_self_upper]
  by (simp add: demo_parseEther_values demo_isAddress_values demo_world_simps
        demo_run_self_upper gasAmount_def toLowerCase_def toLowerCase_char_def demo_wallet_def)

text \<open>
  C4 as stated fails: with the wallet's own address as recipient, the service queries
  both balances before it throws, and the error it throws has status 500.
\<close>

theorem self_transfer_counterexample:
  "isAddress demo_ethers demo_wallet
   \<and> toLowerCase demo_wallet = toLowerCase (wallet_address
        (demo_world 2000000000000000 2000000000000000 (Some 1000000000) None))
   \<and> distributeGas demo_ethers demo_config
        (demo_world 2000000000000000 2000000000000000 (Some 1000000000) None)
        demo_wallet (Some ''0.001'') =
      ([GetBalance demo_wallet, GetBalance demo_wallet],
       Inl (BlockchainError ''Cannot distribute gas to the same wallet'' None))
   \<and> \<not> (400 \<le> statusCode (BlockchainError ''Cannot distribute gas to the same wallet'' None)
         \<and> statusCode (BlockchainError ''Cannot distribute gas to the same wallet'' None) < 500)
   \<and> [GetBalance demo_wallet, GetBalance demo_wallet] \<noteq> []"
  by (simp add: demo_isAddress_values demo_world_simps demo_run_self)

text \<open>
  C5 (as the code has it). A recipient string that \<open>isAddress\<close> rejects gets the
  \<open>BlockchainError\<close> "Invalid recipient address", whose status is 500, and no network
  call is made.
\<close>

theorem invalid_address_is_server_error:
  assumes "\<not> isAddress E recipientAddress"
  shows "distributeGas E C W recipientAddress amount =
           ([], Inl (BlockchainError ''Invalid recipient address'' None))
         \<and> statusCode (BlockchainError ''Invalid recipient address'' None) = 500"
  using assms by (simp add: distributeGas_unfolded)

theorem invalid_address_is_server_error_witness:
  "\<not> isAddress demo_ethers ''0xinvalid''
   \<and> distributeGas demo_ethers demo_config
        (demo_world LOW HIGH (Some 1000000000) (Some (demo_receipt (Some 1))))
        ''0xinvalid'' None =
      ([], Inl (BlockchainError ''Invalid recipient address'' None))
   \<and> statusCode (BlockchainError ''Invalid recipient address'' None) = 500"
  using invalid_address_is_server_error [where E = demo_ethers and C = demo_config
      and W = "demo_world LOW HIGH (Some 1000000000) (Some (demo_receipt (Some 1)))"
      and recipientAddress = "''0xinvalid''" and amount = None]
  by (simp add: demo_isAddress_values)

text \<open>
  C5 as stated fails: the error for the malformed address \<open>0xinvalid\<close> has status 500,
  which is not in the 4xx class.
\<close>

theorem invalid_address_counterexample:
  "\<not> isAddress demo_ethers ''0xinvalid''
   \<and> snd (distributeGas demo_ethers demo_config
        (demo_world LOW HIGH (Some 1000000000) (Some (demo_receipt (Some 1))))
        ''0xinvalid'' None) =
      Inl (BlockchainError ''Invalid recipient address'' None)
   \<and> \<not> (400 \<le> statusCode (BlockchainError ''Invalid recipient address'' None)
         \<and> statusCode (BlockchainError ''Invalid recipient address'' None) < 500)"
  by (simp add: demo_isAddress_values demo_run_invalid_address)

text \<open>
  C6. \<open>distributeGas\<close> returns a \<open>TransactionInfo\<close> exactly when a transaction was
  submitted, accepted, and confirmed by a receipt whose status is 1. After a
  submission, a null receipt gives the error "Transaction failed - no receipt", and a
  receipt with any other status gives the error "Transaction failed" with that
  receipt's hash.
\<close>

theorem receipt_decides_outcome:
  assumes "distributeGas E C W recipientAddress amount = (tr, res)"
  shows "((\<exists>transactionInfo. res = Inr transactionInfo) \<longleftrightarrow>
            (\<exists>transaction tx r. SendTransaction transaction \<in> set tr
               \<and> send_transaction W transaction = Inr tx
               \<and> wait tx = Inr (Some r) \<and> receipt_status r = Some 1))
       \<and> (\<forall>transaction tx. SendTransaction transaction \<in> set tr
             \<and> send_transaction W transaction = Inr tx \<and> wait tx = Inr None
             \<longrightarrow> res = Inl (BlockchainError ''Transaction failed - no receipt'' None))
       \<and> (\<forall>transaction tx r. SendTransaction transaction \<in> set tr
             \<and> send_transaction W transaction = Inr tx
             \<and> wait tx = Inr (Some r) \<and> receipt_status r \<noteq> Some 1
             \<longrightarrow> res = Inl (BlockchainError ''Transaction failed'' (Some (receipt_hash r))))"
proof (intro conjI allI impI iffI)
  assume "\<exists>transactionInfo. res = Inr transactionInfo"
  then obtain transactionInfo where "res = Inr transactionInfo"
    by blast
  with assms have "distributeGas E C W recipientAddress amount = (tr, Inr transactionInfo)"
    by simp
  then show "\<exists>transaction tx r. SendTransaction transaction \<in> set tr
      \<and> send_transaction W transaction = Inr tx
      \<and> wait tx = Inr (Some r) \<and> receipt_status r = Some 1"
    by (rule success_needs_receipt)
next
  assume "\<exists>transaction tx r. SendTransaction transaction \<in> set tr
      \<and> send_transaction W transaction = Inr tx
      \<and> wait tx = Inr (Some r) \<and> receipt_status r = Some 1"
  then obtain transaction tx r where "SendTransaction transaction \<in> set tr"
    and "send_transaction W transaction = Inr tx"
    and "wait tx = Inr (Some r)" and "receipt_status r = Some 1"
    by blast
  with submitted_run [OF assms, of transaction]
  show "\<exists>transactionInfo. res = Inr transactionInfo"
    by (simp add: confirm_unfolded)
next
  fix transaction tx
  assume "SendTransaction transaction \<in> set tr
      \<and> send_transaction W transaction = Inr tx \<and> wait tx = Inr None"
  with submitted_run [OF assms, of transaction]
  show "res = Inl (BlockchainError ''Transaction failed - no receipt'' None)"
    by (simp add: confirm_unfolded)
next
  fix transaction tx r
  assume "SendTransaction transaction \<in> set tr
      \<and> send_transaction W transaction = Inr tx
      \<and> wait tx = Inr (Some r) \<and> receipt_status r \<noteq> Some 1"
  with submitted_run [OF assms, of transaction]
  show "res = Inl (BlockchainError ''Transaction failed'' (Some (receipt_hash r)))"
    by (simp add: confirm_unfolded)
qed

text \<open>Scenario A, Scenario D and Scenario C of the specification.\<close>

theorem receipt_decides_outcome_witness:
  "SendTransaction (demo_transaction 100000000000000000 1000000000)
     \<in> set (fst (distributeGas demo_ethers demo_config
          (demo_world LOW HIGH (Some 1000000000) (Some (demo_receipt (Some 1))))
          demo_recipient None))
   \<and> send_transaction (demo_world LOW HIGH (Some 1000000000) (Some (demo_receipt (Some 1))))
        (demo_transaction 100000000000000000 1000000000)
      = Inr \<lparr> tx_hash = demo_hash, wait = Inr (Some (demo_receipt (Some 1))) \<rparr>
   \<and> receipt_status (demo_receipt (Some 1)) = Some 1
   \<and> snd (distributeGas demo_ethers demo_config
        (demo_world LOW HIGH (Some 1000000000) (Some (demo_receipt (Some 1))))
        demo_recipient None) = Inr (demo_info 100000000000000000)
   \<and> SendTransaction (demo_transaction 100000000000000000 1000000000)
        \<in> set (fst (distributeGas demo_ethers demo_config
          (demo_world LOW HIGH (Some 1000000000) None) demo_recipient None))
   \<and> send_transaction (demo_world LOW HIGH (Some 1000000000) None)
        (demo_transaction 100000000000000000 1000000000)
      = Inr \<lparr> tx_hash = demo_hash, wait = Inr None \<rparr>
   \<and> snd (distributeGas demo_ethers demo_config
        (demo_world LOW HIGH (Some 1000000000) None) demo_recipient None)
      = Inl (BlockchainError ''Transaction failed - no receipt'' None)
   \<and> SendTransaction (demo_transaction 100000000000000000 1000000000)
        \<in> set (fst (distributeGas demo_ethers demo_config
          (demo_world LOW HIGH (Some 1000000000) (Some (demo_receipt (Some 0))))
          demo_recipient None))
   \<and> send_transaction (demo_world LOW HIGH (Some 1000000000) (Some (demo_receipt (Some 0))))
        (demo_transaction 100000000000000000 1000000000)
      = Inr \<lparr> tx_hash = demo_hash, wait = Inr (Some (demo_receipt (Some 0))) \<rparr>
   \<and> receipt_status (demo_receipt (Some 0)) \<noteq> Some 1
   \<and> snd (distributeGas demo_ethers demo_config
        (demo_world LOW HIGH (Some 1000000000) (Some (demo_receipt (Some 0))))
        demo_recipient None)
      = Inl (BlockchainError ''Transaction failed'' (Some demo_hash))"
  using receipt_decides_outcome [OF demo_run_success]
    receipt_decides_outcome [OF demo_run_no_receipt]
    receipt_decides_outcome [OF demo_run_failed]
  by (simp add: demo_world_simps demo_run_success demo_run_no_receipt demo_run_failed
        demo_receipt_simps)

text \<open>
  C7 (as the code has it). When the conversion of a supplied, non-empty amount throws,
  no network call is made and the caller gets what the \<open>catch\<close> block makes of the
  library's exception, always an error of status 500: the default
  \<open>InsufficientBalanceError\<close> when the exception's message contains "insufficient
  funds"; otherwise the \<open>BlockchainError\<close> "Network error - please try again later" when
  the message contains "network"; otherwise, and for a thrown value that is not an
  \<open>Error\<close>, the \<open>BlockchainError\<close> "Transaction failed - unexpected error". With no
  amount supplied the run is the run for the configured \<open>GAS_AMOUNT\<close>.
\<close>

theorem unparsable_amount_is_server_error:
  assumes "isAddress E recipientAddress"
    and "a \<noteq> []"
    and "parseEther E a = Inl e"
  shows "(\<exists>err. distributeGas E C W recipientAddress (Some a) = ([], Inl err)
                \<and> statusCode err = 500)
       \<and> (\<forall>message. e = JsError message \<and> str_includes message ''insufficient funds''
             \<longrightarrow> distributeGas E C W recipientAddress (Some a) =
                   ([], Inl (InsufficientBalanceError
                               ''Insufficient balance for gas distribution'')))
       \<and> (\<forall>message. e = JsError message \<and> \<not> str_includes message ''insufficient funds''
             \<and> str_includes message ''network''
             \<longrightarrow> distributeGas E C W recipientAddress (Some a) =
                   ([], Inl (BlockchainError ''Network error - please try again later'' None)))
       \<and> (\<forall>message. e = JsError message \<and> \<not> str_includes message ''insufficient funds''
             \<and> \<not> str_includes message ''network''
             \<longrightarrow> distributeGas E C W recipientAddress (Some a) =
                   ([], Inl (BlockchainError ''Transaction failed - unexpected error'' None)))
       \<and> (e = NonError
             \<longrightarrow> distributeGas E C W recipientAddress (Some a) =
                   ([], Inl (BlockchainError ''Transaction failed - unexpected error'' None)))
       \<and> distributeGas E C W recipientAddress None =
           distributeGas E C W recipientAddress (Some (GAS_AMOUNT C))"
proof -
  have g: "gasAmount C (Some (GAS_AMOUNT C)) = gasAmount C None"
    by (simp add: gasAmount_def)
  have same: "distributeGas E C W recipientAddress None =
                distributeGas E C W recipientAddress (Some (GAS_AMOUNT C))"
    unfolding distributeGas_def distributeGas_try_def g by (rule refl)
  have run: "distributeGas E C W recipientAddress (Some a) = ([], Inl (distributeGas_catch (Lib e)))"
    using assms by (simp add: distributeGas_unfolded gasAmount_def)
  have code: "\<exists>err. distributeGas E C W recipientAddress (Some a) = ([], Inl err)
                \<and> statusCode err = 500"
    by (simp add: run statusCode_catch_Lib)
  have funds: "\<forall>message. e = JsError message \<and> str_includes message ''insufficient funds''
      \<longrightarrow> distributeGas E C W recipientAddress (Some a) =
            ([], Inl (InsufficientBalanceError ''Insufficient balance for gas distribution''))"
    by (simp add: run InsufficientBalanceError_default_def)
  have network: "\<forall>message. e = JsError message
      \<and> \<not> str_includes message ''insufficient funds'' \<and> str_includes message ''network''
      \<longrightarrow> distributeGas E C W recipientAddress (Some a) =
            ([], Inl (BlockchainError ''Network error - please try again later'' None))"
    by (simp add: run)
  have other: "\<forall>message. e = JsError message
      \<and> \<not> str_includes message ''insufficient funds'' \<and> \<not> str_includes message ''network''
      \<longrightarrow> distributeGas E C W recipientAddress (Some a) =
            ([], Inl (BlockchainError ''Transaction failed - unexpected error'' None))"
    by (simp add: run)
  have non_error: "e = NonError
      \<longrightarrow> distributeGas E C W recipientAddress (Some a) =
            ([], Inl (BlockchainError ''Transaction failed - unexpected error'' None))"
    by (simp add: run)
  from code funds network other non_error same show ?thesis
    by (intro conjI)
qed

text \<open>
  Three amounts that do not convert, with a library that quotes the amount in its
  message: the amount "insufficient funds", the amount "network" and the amount "abc".
\<close>

theorem unparsable_amount_is_server_error_witness:
  "isAddress demo_ethers_quoting demo_recipient_plain
   \<and> ''insufficient funds'' \<noteq> []
   \<and> parseEther demo_ethers_quoting ''insufficient funds'' =
       Inl (JsError ''invalid FixedNumber string value (value=insufficient funds)'')
   \<and> str_includes ''invalid FixedNumber string value (value=insufficient funds)''
        ''insufficient funds''
   \<and> distributeGas demo_ethers_quoting demo_config
        (demo_world LOW HIGH (Some 1000000000) (Some (demo_receipt (Some 1))))
        demo_recipient_plain (Some ''insufficient funds'') =
      ([], Inl (InsufficientBalanceError ''Insufficient balance for gas distribution''))
   \<and> statusCode (InsufficientBalanceError ''Insufficient balance for gas distribution'') = 500
   \<and> ''network'' \<noteq> []
   \<and> parseEther demo_ethers_quoting ''network'' =
       Inl (JsError ''invalid FixedNumber string value (value=network)'')
   \<and> \<not> str_includes ''invalid FixedNumber string value (value=network)'' ''insufficient funds''
   \<and> str_includes ''invalid FixedNumber string value (value=network)'' ''network''
   \<and> distributeGas demo_ethers_quoting demo_config
        (demo_world LOW HIGH (Some 1000000000) (Some (demo_receipt (Some 1))))
        demo_recipient_plain (Some ''network'') =
      ([], Inl (BlockchainError ''Network error - please try again later'' None))
   \<and> statusCode (BlockchainError ''Network error - please try again later'' None) = 500
   \<and> ''abc'' \<noteq> []
   \<and> parseEther demo_ethers_quoting ''abc'' =
       Inl (JsError ''invalid FixedNumber string value (value=abc)'')
   \<and> \<not> str_includes ''invalid FixedNumber string value (value=abc)'' ''insufficient funds''
   \<and> \<not> str_includes ''invalid FixedNumber string value (value=abc)'' ''network''
   \<and> distributeGas demo_ethers_quoting demo_config
        (demo_world LOW HIGH (Some 1000000000) (Some (demo_receipt (Some 1))))
        demo_recipient_plain (Some ''abc'') =
      ([], Inl (BlockchainError ''Transaction failed - unexpected error'' None))
   \<and> statusCode (BlockchainError ''Transaction failed - unexpected error'' None) = 500"
proof -
  let ?W = "demo_world LOW HIGH (Some 1000000000) (Some (demo_receipt (Some 1)))"
  note valid = demo_plain_values(2)
  have funds: "distributeGas demo_ethers_quoting demo_config ?W demo_recipient_plain
      (Some ''insufficient funds'') =
      ([], Inl (InsufficientBalanceError ''Insufficient balance for gas distribution''))"
    using unparsable_amount_is_server_error [OF valid _ demo_quoting_values(1),
        where C = demo_config and W = ?W]
    by (simp add: demo_quoting_includes)
  have network: "distributeGas demo_ethers_quoting demo_config ?W demo_recipient_plain
      (Some ''network'') =
      ([], Inl (BlockchainError ''Network error - please try again later'' None))"
    using unparsable_amount_is_server_error [OF valid _ demo_quoting_values(2),
        where C = demo_config and W = ?W]
    by (simp add: demo_quoting_includes)
  have other: "distributeGas demo_ethers_quoting demo_config ?W demo_recipient_plain
      (Some ''abc'') =
      ([], Inl (BlockchainError ''Transaction failed - unexpected error'' None))"
    using unparsable_amount_is_server_error [OF valid _ demo_quoting_values(3),
        where C = demo_config and W = ?W]
    by (simp add: demo_quoting_includes)
  from funds network other show ?thesis
    by (simp add: valid demo_quoting_values demo_quoting_includes)
qed

text \<open>
  C7 as stated fails: for the amount \<open>abc\<close> the error is the unexpected-error
  \<open>BlockchainError\<close>, whose status is 500, which is not in the 4xx class.
\<close>

theorem unparsable_amount_counterexample:
  "isAddress demo_ethers demo_recipient_plain
   \<and> parseEther demo_ethers ''abc'' = Inl (JsError ''invalid FixedNumber string value'')
   \<and> distributeGas demo_ethers demo_config
        (demo_world LOW HIGH (Some 1000000000) (Some (demo_receipt (Some 1))))
        demo_recipient_plain (Some ''abc'') =
      ([], Inl (BlockchainError ''Transaction failed - unexpected error'' None))
   \<and> \<not> (400 \<le> statusCode (BlockchainError ''Transaction failed - unexpected error'' None)
         \<and> statusCode (BlockchainError ''Transaction failed - unexpected error'' None) < 500)"
  by (simp add: demo_plain_values demo_parseEther_values demo_run_bad_amount_plain)

text \<open>
  C8. When the ledger answers the fee query with no gas price, \<open>getGasPrice\<close> returns
  one gwei, and a run of \<open>distributeGas\<close> that reached the fee query goes on to submit
  its transaction with a gas price of one gwei.
\<close>

theorem absent_gas_price_defaults:
  assumes "fee_data W = Inr None"
  shows "getGasPrice W = ([GetFeeData], Inr 1000000000)
       \<and> (\<forall>tr res. distributeGas E C W recipientAddress amount = (tr, res)
             \<and> GetFeeData \<in> set tr
             \<longrightarrow> (\<exists>transaction. SendTransaction transaction \<in> set tr
                    \<and> tx_gasPrice transaction = 1000000000))"
proof (intro conjI allI impI)
  from assms show "getGasPrice W = ([GetFeeData], Inr 1000000000)"
    by (simp add: getGasPrice_def gasPrice_of_def one_gwei_def io_defs)
next
  fix tr res
  assume "distributeGas E C W recipientAddress amount = (tr, res) \<and> GetFeeData \<in> set tr"
  then have "\<exists>transaction. SendTransaction transaction \<in> set tr
      \<and> tx_gasPrice transaction = gasPrice_of None"
    using assms by (blast intro: fee_queried_run)
  then show "\<exists>transaction. SendTransaction transaction \<in> set tr
      \<and> tx_gasPrice transaction = 1000000000"
    by (simp add: gasPrice_of_def one_gwei_def)
qed

theorem absent_gas_price_defaults_witness:
  "fee_data (demo_world LOW HIGH None (Some (demo_receipt (Some 1)))) = Inr None
   \<and> getGasPrice (demo_world LOW HIGH None (Some (demo_receipt (Some 1))))
      = ([GetFeeData], Inr 1000000000)
   \<and> GetFeeData \<in> set (fst (distributeGas demo_ethers demo_config
        (demo_world LOW HIGH None (Some (demo_receipt (Some 1)))) demo_recipient None))
   \<and> SendTransaction (demo_transaction 100000000000000000 1000000000)
        \<in> set (fst (distributeGas demo_ethers demo_config
        (demo_world LOW HIGH None (Some (demo_receipt (Some 1)))) demo_recipient None))
   \<and> tx_gasPrice (demo_transaction 100000000000000000 1000000000) = 1000000000"
  using absent_gas_price_defaults [where E = demo_ethers and C = demo_config
      and W = "demo_world LOW HIGH None (Some (demo_receipt (Some 1)))"
      and recipientAddress = demo_recipient and amount = None]
  by (simp add: demo_world_simps demo_run_no_price demo_transaction_def)

text \<open>
  C9. The empty string as amount is the same as no amount: the configured
  \<open>GAS_AMOUNT\<close> is used and the two runs coincide.
\<close>

theorem empty_amount_is_default:
  "distributeGas E C W recipientAddress (Some '''') = distributeGas E C W recipientAddress None
   \<and> gasAmount C (Some '''') = GAS_AMOUNT C"
proof -
  have g: "gasAmount C (Some '''') = gasAmount C None"
    by (simp add: gasAmount_def)
  have "distributeGas E C W recipientAddress (Some '''') =
          distributeGas E C W recipientAddress None"
    unfolding distributeGas_def distributeGas_try_def g by (rule refl)
  then show ?thesis
    by (simp add: gasAmount_def)
qed

theorem empty_amount_is_default_witness:
  "distributeGas demo_ethers demo_config
     (demo_world LOW HIGH (Some 1000000000) (Some (demo_receipt (Some 1))))
     demo_recipient (Some '''') =
   ([GetBalance demo_recipient, GetBalance demo_wallet, GetFeeData,
     SendTransaction (demo_transaction 100000000000000000 1000000000), Wait demo_hash],
    Inr (demo_info 100000000000000000))
   \<and> gasAmount demo_config (Some '''') = ''0.1''"
proof -
  have g: "GAS_AMOUNT demo_config = ''0.1''"
    by (simp add: demo_config_def)
  from empty_amount_is_default [where E = demo_ethers and C = demo_config
      and W = "demo_world LOW HIGH (Some 1000000000) (Some (demo_receipt (Some 1)))"
      and recipientAddress = demo_recipient]
  show ?thesis
    by (simp add: demo_run_success g)
qed

text \<open>
  C10. \<open>distributeGas\<close> puts no upper bound on a supplied amount: whatever value the
  amount converts to, for a valid recipient other than the wallet, once the recipient
  is below the threshold, the wallet covers the value and the fee query answers, a
  transaction of that value is submitted. The schema's refinement is what rejects an
  amount above 10.
\<close>

theorem no_upper_bound_in_core:
  assumes "isAddress E recipientAddress"
    and "a \<noteq> []"
    and "parseEther E a = Inr valueInWei"
    and "recipient_balance W recipientAddress = Inr recipientBalance"
    and "parseEther E (minimumBalanceThreshold C) = Inr minimumBalance"
    and "recipientBalance < minimumBalance"
    and "wallet_balance W = Inr balance"
    and "valueInWei \<le> balance"
    and "toLowerCase recipientAddress \<noteq> toLowerCase (wallet_address W)"
    and "fee_data W = Inr feeData"
  shows "SendTransaction \<lparr> tx_to = recipientAddress, tx_value = valueInWei,
           tx_gasLimit = 21000, tx_gasPrice = gasPrice_of feeData \<rparr>
           \<in> set (fst (distributeGas E C W recipientAddress (Some a)))
       \<and> (\<forall>x. parseFloat a = Finite x \<and> 10 < x \<longrightarrow> \<not> amount_refine parseFloat (Some a))"
  using assms
  by (auto simp: distributeGas_unfolded gasAmount_def amount_refine_def split: sum.splits)

text \<open>An amount of 11 is submitted by the service and rejected by the schema.\<close>

theorem no_upper_bound_in_core_witness:
  "isAddress demo_ethers demo_recipient
   \<and> ''11'' \<noteq> []
   \<and> parseEther demo_ethers ''11'' = Inr 11000000000000000000
   \<and> recipient_balance
        (demo_world LOW 1000000000000000000000 (Some 1000000000) (Some (demo_receipt (Some 1))))
        demo_recipient = Inr LOW
   \<and> parseEther demo_ethers (minimumBalanceThreshold demo_config) = Inr 5000000000000000
   \<and> LOW < 5000000000000000
   \<and> wallet_balance
        (demo_world LOW 1000000000000000000000 (Some 1000000000) (Some (demo_receipt (Some 1))))
      = Inr 1000000000000000000000
   \<and> (11000000000000000000::int) \<le> 1000000000000000000000
   \<and> toLowerCase demo_recipient \<noteq> toLowerCase (wallet_address
        (demo_world LOW 1000000000000000000000 (Some 1000000000) (Some (demo_receipt (Some 1)))))
   \<and> fee_data
        (demo_world LOW 1000000000000000000000 (Some 1000000000) (Some (demo_receipt (Some 1))))
      = Inr (Some 1000000000)
   \<and> SendTransaction (demo_transaction 11000000000000000000 1000000000)
        \<in> set (fst (distributeGas demo_ethers demo_config
        (demo_world LOW 1000000000000000000000 (Some 1000000000) (Some (demo_receipt (Some 1))))
        demo_recipient (Some ''11'')))
   \<and> demo_parseFloat ''11'' = Finite 11
   \<and> (10::real) < 11
   \<and> \<not> amount_refine demo_parseFloat (Some ''11'')"
  using no_upper_bound_in_core [where E = demo_ethers and C = demo_config
      and W = "demo_world LOW 1000000000000000000000 (Some 1000000000)
                 (Some (demo_receipt (Some 1)))"
      and recipientAddress = demo_recipient and a = "''11''"
      and valueInWei = 11000000000000000000 and recipientBalance = LOW
      and minimumBalance = 5000000000000000 and balance = 1000000000000000000000
      and feeData = "Some 1000000000" and parseFloat = demo_parseFloat]
  by (simp add: demo_isAddress_values demo_parseEther_values demo_world_simps demo_balances
        demo_run_eleven demo_lower_differs demo_parseFloat_eleven amount_refine_def)

end
